theory Spec2Isabelle
  imports Main "HOL-Library.Signed_Division"
begin

section \<open>Go runtime and library values used by the programs\<close>

text \<open>
  The three programs are variants of one HTTP service. Everything they do beyond calling
  into the standard library, Prometheus, opentracing and slog is in their \<open>main\<close>
  functions and handlers; the embedding below follows those line by line and models each
  library call by the effect its documentation gives it. Time is a logical clock in
  milliseconds: \<open>time.Sleep d\<close> advances it by \<open>d\<close>, the outbound HTTP call by its
  latency, and the other statements of a handler take no time.
\<close>

datatype panic =
    NilPointerDereference
  | InvalidArgument

datatype 'a outcome =
    Returned 'a
  | Panicked panic 'a

text \<open>
  \<open>rand.Intn n\<close> panics for \<open>n \<le> 0\<close>; otherwise its last step reduces the raw
  non-negative draw \<open>v\<close> that the generator accepted to \<open>v % n\<close> (a mask when \<open>n\<close> is a
  power of two, which is the same number). The raw draw is an input of the model.
\<close>

definition Intn :: "int \<Rightarrow> nat \<Rightarrow> panic + int" where
  "Intn n v = (if n \<le> 0 then Inl InvalidArgument else Inr (int v mod n))"

subsection \<open>encoding/json for the response structs\<close>

text \<open>
  A struct value is its list of exported fields; each field carries the JSON name and the
  \<open>omitempty\<close> option of its tag. The encoder walks the fields in declaration order and
  skips a field when the option is set and \<open>isEmptyValue\<close> holds. \<open>isEmptyValue\<close> is
  encoding/json's: zero for an integer, length zero for a string, and false for every
  kind it does not list, a struct among them.
\<close>

datatype go_value =
    GoInt int
  | GoString string
  | GoStruct go_fields
and go_fields =
    NoFields
  | Field string bool go_value go_fields

fun isEmptyValue :: "go_value \<Rightarrow> bool" where
  "isEmptyValue (GoInt i) = (i = 0)"
| "isEmptyValue (GoString s) = (s = [])"
| "isEmptyValue (GoStruct fs) = False"

definition digit_char :: "nat \<Rightarrow> char" where
  "digit_char d = ''0123456789'' ! d"

function itoa_nat :: "nat \<Rightarrow> string" where
  "itoa_nat n = (if n < 10 then [digit_char n] else itoa_nat (n div 10) @ [digit_char (n mod 10)])"
  by pat_completeness auto
termination
  by (relation "measure id") auto

definition itoa :: "int \<Rightarrow> string" where
  "itoa i = (if i < 0 then CHR ''-'' # itoa_nat (nat (- i)) else itoa_nat (nat i))"

text \<open>
  String literals are written between double quotes; the quote and the backslash are
  escaped. (The other escapes of the encoder concern control characters, the HTML
  characters and invalid UTF-8, none of which occurs in a name or message of the
  programs.)
\<close>

fun escape_chars :: "string \<Rightarrow> string" where
  "escape_chars [] = []"
| "escape_chars (c # cs) =
     (if c = CHR 0x22 \<or> c = CHR 0x5C then CHR 0x5C # c # escape_chars cs
      else c # escape_chars cs)"

definition quote :: "string \<Rightarrow> string" where
  "quote s = CHR 0x22 # escape_chars s @ [CHR 0x22]"

fun marshal :: "go_value \<Rightarrow> string"
  and marshal_fields :: "bool \<Rightarrow> go_fields \<Rightarrow> string" where
  "marshal (GoInt i) = itoa i"
| "marshal (GoString s) = quote s"
| "marshal (GoStruct fs) = ''{'' @ marshal_fields True fs @ ''}''"
| "marshal_fields first NoFields = []"
| "marshal_fields first (Field name omitempty v fs) =
     (if omitempty \<and> isEmptyValue v then marshal_fields first fs
      else (if first then [] else '','') @ quote name @ '':'' @ marshal v
           @ marshal_fields False fs)"

text \<open>\<open>json.NewEncoder(w).Encode(v)\<close> writes the encoding of \<open>v\<close> followed by a newline.\<close>

definition Encode :: "go_value \<Rightarrow> string" where
  "Encode v = marshal v @ [CHR 0x0A]"

text \<open>The response structs of the programs, with their tags.\<close>

record Data =
  OrderID :: int

record Error =
  Message :: string
  Description :: string

record ResponseData =
  Data :: Data
  Error :: Error

definition Data_value :: "Data \<Rightarrow> go_value" where
  "Data_value d = GoStruct (Field ''order_id'' False (GoInt (OrderID d)) NoFields)"

definition Error_value :: "Error \<Rightarrow> go_value" where
  "Error_value e =
     GoStruct (Field ''message'' True (GoString (Message e))
              (Field ''description'' True (GoString (Description e)) NoFields))"

definition ResponseData_value :: "ResponseData \<Rightarrow> go_value" where
  "ResponseData_value r =
     GoStruct (Field ''data'' False (Data_value (Data r))
              (Field ''error'' True (Error_value (Error r)) NoFields))"

subsection \<open>net/http response writer\<close>

record http_request =
  req_method :: string
  req_path :: string
  req_body :: string

record response_writer =
  headers :: "string \<rightharpoonup> string"
  status :: "nat option"
  body :: string

definition new_writer :: response_writer where
  "new_writer = \<lparr>headers = Map.empty, status = None, body = []\<rparr>"

definition Header_Set :: "string \<Rightarrow> string \<Rightarrow> response_writer \<Rightarrow> response_writer" where
  "Header_Set k v w = w\<lparr>headers := (headers w)(k \<mapsto> v)\<rparr>"

text \<open>Only the first \<open>WriteHeader\<close> counts; a write before any sends status 200.\<close>

definition WriteHeader :: "nat \<Rightarrow> response_writer \<Rightarrow> response_writer" where
  "WriteHeader code w = (case status w of None \<Rightarrow> w\<lparr>status := Some code\<rparr> | Some c \<Rightarrow> w)"

definition Write :: "string \<Rightarrow> response_writer \<Rightarrow> response_writer" where
  "Write bytes w = (let w' = WriteHeader 200 w in w'\<lparr>body := body w' @ bytes\<rparr>)"

text \<open>
  What the server does with a handler's result: a handler that returns without writing
  sends status 200; when the handler panics the server recovers, logs the panic and
  closes the connection, so the client receives no response.
\<close>

datatype http_result =
    Response nat "string \<rightharpoonup> string" string
  | ConnectionAborted

fun finish_request :: "(response_writer \<times> 's) outcome \<Rightarrow> http_result" where
  "finish_request (Returned (w, s)) =
     Response (case status w of None \<Rightarrow> 200 | Some code \<Rightarrow> code) (headers w) (body w)"
| "finish_request (Panicked p (w, s)) = ConnectionAborted"

section \<open>Process state\<close>

datatype log_level = Debug | Info | Warn | Err

record log_record =
  level :: log_level
  msg :: string
  attrs :: "(string \<times> string) list"

datatype event =
    SpanStarted string
  | SpanFinished string
  | OutboundRequest string string
  | TraceInjected string
  | BodyClosed

text \<open>
  \<open>counter\<close> is \<open>metricCounter\<close>: the children of the counter vector by label values.
  \<open>summary\<close> and \<open>histogram\<close> keep the durations observed (the handler passes
  \<open>duration.Seconds()\<close>, a function of the duration alone; the model keeps the duration in
  milliseconds). \<open>sink\<close> is what has been written to the log connection, \<open>trace\<close> the
  span and outbound-call events in order, \<open>clock\<close> the logical time. A handler is run on
  its own: what other goroutines write to the sink in the meantime is not part of the
  state it returns.
\<close>

record app_state =
  counter :: "string list \<rightharpoonup> nat"
  summary :: "nat list"
  histogram :: "nat list"
  sink :: "log_record list"
  trace :: "event list"
  clock :: nat

definition time_Sleep :: "nat \<Rightarrow> app_state \<Rightarrow> app_state" where
  "time_Sleep d s = s\<lparr>clock := clock s + d\<rparr>"

definition emit :: "event \<Rightarrow> app_state \<Rightarrow> app_state" where
  "emit e s = s\<lparr>trace := trace s @ [e]\<rparr>"

definition log_write :: "log_level \<Rightarrow> string \<Rightarrow> (string \<times> string) list \<Rightarrow> app_state \<Rightarrow> app_state" where
  "log_write l m kvs s = s\<lparr>sink := sink s @ [\<lparr>level = l, msg = m, attrs = kvs\<rparr>]\<rparr>"

text \<open>
  \<open>WithLabelValues\<close> returns the child for the label values, creating it at zero when it
  does not exist yet; it does not change any value. \<open>Inc\<close> on that child adds one. (Every
  call in the programs gives three values for the three declared labels, so the
  cardinality panic of \<open>WithLabelValues\<close> cannot occur.)
\<close>

definition WithLabelValues :: "string list \<Rightarrow> (string list \<rightharpoonup> nat) \<Rightarrow> (string list \<rightharpoonup> nat)" where
  "WithLabelValues lvs vec = (case vec lvs of None \<Rightarrow> vec(lvs \<mapsto> 0) | Some c \<Rightarrow> vec)"

definition Inc :: "string list \<Rightarrow> (string list \<rightharpoonup> nat) \<Rightarrow> (string list \<rightharpoonup> nat)" where
  "Inc lvs vec = vec(lvs \<mapsto> Suc (case vec lvs of None \<Rightarrow> 0 | Some c \<Rightarrow> c))"

definition counter_value :: "(string list \<rightharpoonup> nat) \<Rightarrow> string list \<Rightarrow> nat" where
  "counter_value vec lvs = (case vec lvs of None \<Rightarrow> 0 | Some c \<Rightarrow> c)"

definition counter_Inc :: "string list \<Rightarrow> app_state \<Rightarrow> app_state" where
  "counter_Inc lvs s = s\<lparr>counter := Inc lvs (WithLabelValues lvs (counter s))\<rparr>"

definition counter_WithLabelValues :: "string list \<Rightarrow> app_state \<Rightarrow> app_state" where
  "counter_WithLabelValues lvs s = s\<lparr>counter := WithLabelValues lvs (counter s)\<rparr>"

definition summary_Observe :: "nat \<Rightarrow> app_state \<Rightarrow> app_state" where
  "summary_Observe d s = s\<lparr>summary := summary s @ [d]\<rparr>"

definition histogram_Observe :: "nat \<Rightarrow> app_state \<Rightarrow> app_state" where
  "histogram_Observe d s = s\<lparr>histogram := histogram s @ [d]\<rparr>"

section \<open>The full service: tracing, logging and metrics\<close>

text \<open>
  The loggers of the full program. \<open>slog.SetDefault(logger)\<close> is called before
  \<open>logger = logger.With("environment", "dev")\<close>, so the package-level \<open>slog.Error\<close> and
  the \<open>log\<close> package (which \<open>SetDefault\<close> redirects to the same handler, at level Info)
  write records without attributes, and \<open>logger\<close> writes records that start with the
  environment attribute.
\<close>

definition slog_Error :: "string \<Rightarrow> app_state \<Rightarrow> app_state" where
  "slog_Error m s = log_write Err m [] s"

definition log_Println :: "string \<Rightarrow> app_state \<Rightarrow> app_state" where
  "log_Println m s = log_write Info m [] s"

definition logger_attrs :: "(string \<times> string) list" where
  "logger_attrs = [(''environment'', ''dev'')]"

definition logger_Info :: "string \<Rightarrow> app_state \<Rightarrow> app_state" where
  "logger_Info m s = log_write Info m logger_attrs s"

definition logger_With_Error :: "(string \<times> string) list \<Rightarrow> string \<Rightarrow> app_state \<Rightarrow> app_state" where
  "logger_With_Error kvs m s = log_write Err m (logger_attrs @ kvs) s"

text \<open>
  \<open>span.Finish()\<close>. The tracer is configured with the constant sampler at 1, so every
  span is reported, and with \<open>LogSpans: true\<close> and \<open>jaeger.StdLogger\<close>, so reporting a
  span also prints the line \<open>Reporting span\<close> with the span's identifiers through the
  \<open>log\<close> package, which \<open>SetDefault\<close> has redirected to the sink. The identifiers are
  generated at run time; the model writes the operation name in their place.
\<close>

definition span_Finish :: "string \<Rightarrow> app_state \<Rightarrow> app_state" where
  "span_Finish name s = log_Println (''Reporting span '' @ name) (emit (SpanFinished name) s)"

text \<open>
  The result of \<open>client.Do(req)\<close>: the response (the model keeps its status code; \<open>None\<close>
  is \<open>nil\<close>), the error, and the time the call took.
\<close>

record do_result =
  res :: "nat option"
  err :: "string option"
  latency :: nat

record request_env =
  draw :: nat
  downstream :: do_result

definition insertToDB :: "app_state \<Rightarrow> app_state" where
  "insertToDB s =
     (let s = emit (SpanStarted ''2_inserting_order_data_to_db'') s;
          s = time_Sleep 500 s;
          s = logger_Info ''inserting to db...'' s
      in span_Finish ''2_inserting_order_data_to_db'' s)"

text \<open>
  \<open>callInventoryService\<close>. The statement \<open>defer res.Body.Close()\<close> evaluates \<open>res.Body\<close>
  when it is executed: with \<open>res\<close> nil that is a nil pointer dereference, the function
  panics there, and the one deferred call registered before it, \<open>span.Finish()\<close>, runs
  while the panic unwinds. Otherwise both deferred calls run at the return, last
  registered first.
\<close>

definition callInventoryService :: "do_result \<Rightarrow> app_state \<Rightarrow> app_state outcome" where
  "callInventoryService d s =
     (let s = emit (SpanStarted ''3_http_get_inventory_service_check_stock'') s;
          s = emit (TraceInjected ''3_http_get_inventory_service_check_stock'') s;
          s = emit (OutboundRequest ''GET'' ''http://localhost:2000/checkstock'') s;
          s = time_Sleep (latency d) s;
          s = (if err d \<noteq> None then slog_Error ''failed to call inventory service'' s else s)
      in case res d of
           None \<Rightarrow>
             Panicked NilPointerDereference
               (span_Finish ''3_http_get_inventory_service_check_stock'' s)
         | Some code \<Rightarrow>
             Returned
               (span_Finish ''3_http_get_inventory_service_check_stock'' (emit BodyClosed s)))"

definition simulated_failure_attrs :: "(string \<times> string) list" where
  "simulated_failure_attrs =
     [(''customer_id'', ''123''),
      (''error'', ''connection to inventory service disconnected''),
      (''product_id'', ''product-a''),
      (''product_category'', ''electronic'')]"

text \<open>
  The handler of \<open>/orders\<close> in the full program. The deferred \<open>span.Finish()\<close> of the root
  span runs on return and while a panic unwinds.
\<close>

definition orders_handler ::
  "request_env \<Rightarrow> http_request \<Rightarrow> response_writer \<Rightarrow> app_state
     \<Rightarrow> (response_writer \<times> app_state) outcome" where
  "orders_handler env r w s =
     (let s = emit (SpanStarted ''creating order'') s;
          s = emit (SpanStarted ''1_validating_order_data'') s;
          s = time_Sleep 200 s;
          s = span_Finish ''1_validating_order_data'' s;
          s = insertToDB s
      in case callInventoryService (downstream env) s of
           Panicked p s \<Rightarrow> Panicked p (w, span_Finish ''creating order'' s)
         | Returned s \<Rightarrow>
             (let startTime = clock s;
                  s = log_Println ''serving traffic ...'' s
              in case Intn 1000 (draw env) of
                   Inl p \<Rightarrow> Panicked p (w, span_Finish ''creating order'' s)
                 | Inr n \<Rightarrow>
                     (let responseData =
                            \<lparr>Data = \<lparr>OrderID = n\<rparr>, Error = \<lparr>Message = [], Description = []\<rparr>\<rparr>;
                          (w, s) =
                            (if OrderID (Data responseData) smod 2 = 0 then
                               (let s = time_Sleep 100 s;
                                    s = counter_Inc [''POST'', ''/orders'', ''200''] s;
                                    w = Header_Set ''Content-Type'' ''application/json'' w;
                                    w = WriteHeader 200 w;
                                    w = Write (Encode (ResponseData_value responseData)) w
                                in (w, s))
                             else
                               (let s = time_Sleep 400 s;
                                    s = logger_With_Error simulated_failure_attrs
                                          ''failed to connect to inventory service'' s;
                                    s = counter_Inc [''POST'', ''/orders'', ''500''] s;
                                    w = Header_Set ''Content-Type'' ''application/json'' w;
                                    w = WriteHeader 500 w;
                                    responseData = responseData
                                      \<lparr>Error := \<lparr>Message = ''failure, this is simulated by devs'',
                                                 Description = []\<rparr>\<rparr>;
                                    w = Write (Encode (ResponseData_value responseData)) w
                                in (w, s)));
                          duration = clock s - startTime;
                          s = summary_Observe duration s;
                          s = histogram_Observe duration s
                      in Returned (w, span_Finish ''creating order'' s))))"

definition payment_failure_attrs :: "(string \<times> string) list" where
  "payment_failure_attrs =
     [(''tracer_id'', ''trace-id-a''),
      (''request_id'', ''request-id-sample''),
      (''customer_id'', ''customer-1''),
      (''error'', ''payment gateway not responding, with http status code 502''),
      (''product_id'', ''product-a''),
      (''order_id'', ''order-id-sample'')]"

definition internal_orders_handler ::
  "http_request \<Rightarrow> response_writer \<Rightarrow> app_state \<Rightarrow> (response_writer \<times> app_state) outcome" where
  \<open>internal_orders_handler r w s =
     (let s = emit (SpanStarted ''creating order'') s;
          s = logger_With_Error payment_failure_attrs ''failing validating payment'' s;
          s = counter_Inc [''GET'', ''/internal/orders'', ''200''] s;
          w = WriteHeader 200 w;
          w = Write ''{"data":{}}'' w
      in Returned (w, span_Finish ''creating order'' s))\<close>

section \<open>The earlier variants: exposing the request counter\<close>

text \<open>
  The handler of \<open>/orders\<close> in \<open>4_exposing_http_request_metric/golang-app/main.go\<close>; the
  variant that adds the gauge and the background job has the same handler, statement for
  statement. Both branches call \<open>metricCounter.WithLabelValues\<close> and drop the child it
  returns.
\<close>

definition orders_handler_exposing_metric ::
  "nat \<Rightarrow> http_request \<Rightarrow> response_writer \<Rightarrow> app_state
     \<Rightarrow> (response_writer \<times> app_state) outcome" where
  "orders_handler_exposing_metric v r w s =
     (let s = time_Sleep 450 s
      in case Intn 1000 v of
           Inl p \<Rightarrow> Panicked p (w, s)
         | Inr n \<Rightarrow>
             (let responseData =
                    \<lparr>Data = \<lparr>OrderID = n\<rparr>, Error = \<lparr>Message = [], Description = []\<rparr>\<rparr>
              in if OrderID (Data responseData) smod 2 = 0 then
                   (let s = counter_WithLabelValues [''POST'', ''/orders'', ''200''] s;
                        w = Header_Set ''Content-Type'' ''application/json'' w;
                        w = WriteHeader 200 w;
                        w = Write (Encode (ResponseData_value responseData)) w
                    in Returned (w, s))
                 else
                   (let s = counter_WithLabelValues [''POST'', ''/orders'', ''500''] s;
                        w = Header_Set ''Content-Type'' ''application/json'' w;
                        w = WriteHeader 500 w;
                        responseData = responseData
                          \<lparr>Error := \<lparr>Message = ''failure, this is simulated by test devs'',
                                     Description = ''error''\<rparr>\<rparr>;
                        w = Write (Encode (ResponseData_value responseData)) w
                    in Returned (w, s))))"

text \<open>The identifier a request generates: \<open>rand.Intn(1000)\<close> on the request's draw.\<close>

definition generated_order_id :: "nat \<Rightarrow> int" where
  "generated_order_id v = (case Intn 1000 v of Inl p \<Rightarrow> 0 | Inr n \<Rightarrow> n)"

definition response_status :: "(response_writer \<times> app_state) outcome \<Rightarrow> nat option" where
  "response_status out =
     (case finish_request out of Response code hs b \<Rightarrow> Some code | ConnectionAborted \<Rightarrow> None)"

definition response_body :: "(response_writer \<times> app_state) outcome \<Rightarrow> string option" where
  "response_body out =
     (case finish_request out of Response code hs b \<Rightarrow> Some b | ConnectionAborted \<Rightarrow> None)"

definition final_state :: "(response_writer \<times> app_state) outcome \<Rightarrow> app_state" where
  "final_state out = (case out of Returned (w, s) \<Rightarrow> s | Panicked p (w, s) \<Rightarrow> s)"

text \<open>
  The state at process start (\<open>init\<close> registers the instruments; none has a child or an
  observation yet) and inputs used to run the handlers on concrete requests.
\<close>

definition init_state :: app_state where
  "init_state =
     \<lparr>counter = Map.empty, summary = [], histogram = [], sink = [], trace = [], clock = 0\<rparr>"

definition post_orders :: http_request where
  "post_orders = \<lparr>req_method = ''POST'', req_path = ''/orders'', req_body = []\<rparr>"

definition inventory_up :: do_result where
  "inventory_up = \<lparr>res = Some 200, err = None, latency = 50\<rparr>"

definition inventory_down :: do_result where
  "inventory_down =
     \<lparr>res = None,
      err = Some ''Get http://localhost:2000/checkstock: connection refused'',
      latency = 0\<rparr>"

section \<open>The background simulation job\<close>

text \<open>
  The goroutine started by \<open>main\<close>: a \<open>for\<close> loop around a \<open>select\<close> with a \<open>default\<close>
  branch. Each iteration polls \<open>ctx.Done()\<close>; when the context is cancelled it logs and
  returns, otherwise it adds a random sample to the gauge and calls \<open>time.Sleep\<close>. The
  two programs with the job differ in the bound of the sample (100, 1000), the length of
  the sleep (1000 ms, 300 ms) and whether each iteration logs a line (the line carries a
  timestamp, which the model leaves out).

  \<open>cancel_at\<close> is the time at which \<open>cancelSimulationJob\<close> is called, on the goroutine
  of \<open>main\<close> (\<open>None\<close>: never); \<open>draws i\<close> is the raw draw of iteration \<open>i\<close>; \<open>work i\<close>
  is the time that passes in iteration \<open>i\<close> between the poll of the context and the
  update of the gauge (the log line, the draw, the scheduler), during which the
  cancellation may fire unseen. The loop has no exit but the cancellation, so the job is
  a partial function: \<open>None\<close> is a job that runs forever.
\<close>

record job_config =
  sample_bound :: int
  tick :: nat
  log_each_tick :: bool

definition full_service_job :: job_config where
  "full_service_job = \<lparr>sample_bound = 100, tick = 1000, log_each_tick = False\<rparr>"

definition gauge_variant_job :: job_config where
  "gauge_variant_job = \<lparr>sample_bound = 1000, tick = 300, log_each_tick = True\<rparr>"

record job_state =
  gauge :: "string list \<rightharpoonup> int"
  updates :: "nat list"
  job_log :: "string list"
  job_clock :: nat

definition ctx_Done :: "nat option \<Rightarrow> nat \<Rightarrow> bool" where
  "ctx_Done cancel_at now = (case cancel_at of None \<Rightarrow> False | Some c \<Rightarrow> c \<le> now)"

definition gauge_Add :: "string list \<Rightarrow> int \<Rightarrow> job_state \<Rightarrow> job_state" where
  "gauge_Add lvs x s =
     s\<lparr>gauge := (gauge s)(lvs \<mapsto> (case gauge s lvs of None \<Rightarrow> 0 | Some g \<Rightarrow> g) + x),
       updates := updates s @ [job_clock s]\<rparr>"

definition job_Sleep :: "nat \<Rightarrow> job_state \<Rightarrow> job_state" where
  "job_Sleep d s = s\<lparr>job_clock := job_clock s + d\<rparr>"

definition job_elapse :: "nat \<Rightarrow> job_state \<Rightarrow> job_state" where
  "job_elapse d s = s\<lparr>job_clock := job_clock s + d\<rparr>"

definition job_Print :: "string \<Rightarrow> job_state \<Rightarrow> job_state" where
  "job_Print m s = s\<lparr>job_log := job_log s @ [m]\<rparr>"

partial_function (option) simulation_job ::
  "job_config \<Rightarrow> nat option \<Rightarrow> (nat \<Rightarrow> nat) \<Rightarrow> (nat \<Rightarrow> nat) \<Rightarrow> nat \<Rightarrow> job_state
     \<Rightarrow> job_state outcome option" where
  "simulation_job cfg cancel_at draws work i s =
     (if ctx_Done cancel_at (job_clock s) then
        Some (Returned (job_Print ''stopping job simulation'' s))
      else
        (let s = (if log_each_tick cfg then job_Print ''sending metrics'' s else s);
             s = job_elapse (work i) s
         in case Intn (sample_bound cfg) (draws i) of
              Inl p \<Rightarrow> Some (Panicked p s)
            | Inr x \<Rightarrow>
                simulation_job cfg cancel_at draws work (Suc i)
                  (job_Sleep (tick cfg) (gauge_Add [''ID'', ''JAK''] x s))))"

text \<open>An iteration whose work between the poll and the update takes one millisecond.\<close>

definition one_ms :: "nat \<Rightarrow> nat" where
  "one_ms i = 1"

definition job_start :: job_state where
  "job_start = \<lparr>gauge = Map.empty, updates = [], job_log = [], job_clock = 0\<rparr>"

definition stop_time :: "job_state outcome option \<Rightarrow> nat option" where
  "stop_time out =
     (case out of
        None \<Rightarrow> None
      | Some (Returned s) \<Rightarrow> Some (job_clock s)
      | Some (Panicked p s) \<Rightarrow> Some (job_clock s))"

section \<open>Startup and shutdown of the full service\<close>

text \<open>
  \<open>main\<close> of the full program, as a function of what its environment answers: the
  result of \<open>cfg.NewTracer\<close>, the result of \<open>net.Dial\<close>, the result of
  \<open>ListenAndServe\<close>, the time at which a termination signal arrives (\<open>None\<close>: never)
  and the time the in-flight requests need to drain. \<open>agent_listening\<close> tells whether
  a Jaeger agent listens on \<open>localhost:6831\<close>: the tracer reports over UDP, \<open>NewTracer\<close>
  does not contact the agent, and no statement of \<open>main\<close> depends on it.

  \<open>timeline\<close> is what the statements of \<open>main\<close> did and printed, and when (the lines
  that \<open>NewTracer\<close> prints on its own while it sets up are not in it). \<open>listener_log\<close>
  is what the goroutine around \<open>ListenAndServe\<close> printed and when; the two goroutines
  run concurrently, so the order of their lines within one instant is not fixed and the
  model keeps them apart.
\<close>

datatype tracer = JaegerTracer
datatype closer = TracerCloser
datatype conn = LogstashConn

record new_tracer_result =
  nt_tracer :: "tracer option"
  nt_closer :: "closer option"
  nt_err :: "string option"

record dial_result =
  dial_conn :: "conn option"
  dial_err :: "string option"

record main_env =
  agent_listening :: bool
  new_tracer :: new_tracer_result
  dial :: dial_result
  listen_err :: "string option"
  signal_at :: "nat option"
  drain_needed :: nat

datatype proc_event =
    Printed string
  | JobStarted
  | ListenerStarted
  | CancelCalled
  | ShutdownStarted nat
  | ShutdownReturned "string option"
  | Slept nat
  | Closed string

record process =
  timeline :: "(nat \<times> proc_event) list"
  listener_log :: "(nat \<times> string) list"
  now :: nat
  global_tracer :: "tracer option"
  job_cancelled :: bool
  accepting :: bool

datatype run_result =
    Waiting process
  | Exited nat process
  | Crashed panic process

definition at_now :: "proc_event \<Rightarrow> process \<Rightarrow> process" where
  "at_now e p = p\<lparr>timeline := timeline p @ [(now p, e)]\<rparr>"

definition listener_Printf :: "string \<Rightarrow> process \<Rightarrow> process" where
  "listener_Printf m p = p\<lparr>listener_log := listener_log p @ [(now p, m)]\<rparr>"

definition proc_Sleep :: "nat \<Rightarrow> process \<Rightarrow> process" where
  "proc_Sleep d p = (let p = at_now (Slept d) p in p\<lparr>now := now p + d\<rparr>)"

text \<open>
  \<open>InitTracer\<close>: an error of \<open>NewTracer\<close> is logged and nothing else; the function goes
  on to install the tracer it was given and returns it with the closer.
\<close>

definition InitTracer ::
  "new_tracer_result \<Rightarrow> process \<Rightarrow> (tracer option \<times> closer option) \<times> process" where
  "InitTracer nt p =
     (let p = (if nt_err nt \<noteq> None then at_now (Printed ''failed to start tracer'') p else p);
          p = p\<lparr>global_tracer := nt_tracer nt\<rparr>
      in ((nt_tracer nt, nt_closer nt), p))"

text \<open>
  \<open>main\<close> up to the point where it blocks on the signal channel. \<open>defer closer.Close()\<close>
  and \<open>defer conn.Close()\<close> evaluate a method value of an interface when they are
  executed: on a nil interface that is a run-time panic at the \<open>defer\<close> statement.
  \<open>log.Fatalf\<close> prints and exits with status 1 without running deferred calls.
  \<open>ListenAndServe\<close> runs on a goroutine of its own, which prints the error with which it
  returns: at once when it cannot listen, and otherwise when the server is shut down. In
  both cases \<open>main\<close> waits for the signal.
\<close>

definition main_startup :: "main_env \<Rightarrow> process \<Rightarrow> run_result" where
  "main_startup env p =
     (let ((tracer, closer), p) = InitTracer (new_tracer env) p
      in case closer of
           None \<Rightarrow> Crashed NilPointerDereference p
         | Some cl \<Rightarrow>
             (case dial_err (dial env) of
                Some e \<Rightarrow> Exited 1 (at_now (Printed (''could not connect to Logstash: '' @ e)) p)
              | None \<Rightarrow>
                  (let p = at_now (Printed ''connected to logstash successfully'') p
                   in case dial_conn (dial env) of
                        None \<Rightarrow> Crashed NilPointerDereference p
                      | Some cn \<Rightarrow>
                          (let p = at_now (Printed ''starting http server ...'') p;
                               p = at_now JobStarted p;
                               p = (case listen_err env of
                                      None \<Rightarrow> at_now ListenerStarted (p\<lparr>accepting := True\<rparr>)
                                    | Some e \<Rightarrow>
                                        listener_Printf (''HTTP server ListenAndServe: '' @ e) p)
                           in Waiting p))))"

definition cancelSimulationJob :: "process \<Rightarrow> process" where
  "cancelSimulationJob p = at_now CancelCalled (p\<lparr>job_cancelled := True\<rparr>)"

text \<open>
  \<open>server.Shutdown(ctx)\<close> closes the listeners, then waits until the connections are
  idle or the context expires, whichever comes first; in the second case it returns the
  context's error. Closing the listeners makes a running \<open>ListenAndServe\<close> return
  \<open>ErrServerClosed\<close>, which its goroutine prints.
\<close>

definition server_Shutdown :: "nat \<Rightarrow> nat \<Rightarrow> process \<Rightarrow> string option \<times> process" where
  "server_Shutdown timeout need p =
     (let p = at_now (ShutdownStarted timeout) p;
          p = (if accepting p then
                 listener_Printf ''HTTP server ListenAndServe: http: Server closed''
                   (p\<lparr>accepting := False\<rparr>)
               else p);
          (e, p) = (if need \<le> timeout then (None, p\<lparr>now := now p + need\<rparr>)
                    else (Some ''context deadline exceeded'', p\<lparr>now := now p + timeout\<rparr>))
      in (e, at_now (ShutdownReturned e) p))"

text \<open>
  \<open>main\<close> from the receipt of the signal to the exit. The deferred calls run when \<open>main\<close>
  returns, last registered first. \<open>main\<close> is \<open>main_startup\<close>, the wait for the signal and
  \<open>main_shutdown\<close>; without a signal it waits forever.
\<close>

definition main_shutdown :: "nat \<Rightarrow> process \<Rightarrow> run_result" where
  "main_shutdown need p =
     (let p = at_now (Printed ''termination signal received, shutting down...'') p;
          p = cancelSimulationJob p;
          (shutdownErr, p) = server_Shutdown 5000 need p;
          p = (case shutdownErr of
                 Some e \<Rightarrow>
                   at_now (Printed (''failled to shutdown http server due to error: '' @ e)) p
               | None \<Rightarrow> at_now (Printed ''http server stopped gracefully'') p);
          p = proc_Sleep 2000 p;
          p = at_now (Closed ''shutdownCtx'') p;
          p = cancelSimulationJob p;
          p = at_now (Closed ''conn'') p;
          p = at_now (Closed ''closer'') p
      in Exited 0 p)"

definition main :: "main_env \<Rightarrow> process \<Rightarrow> run_result" where
  "main env p =
     (case main_startup env p of
        Waiting p \<Rightarrow>
          (case signal_at env of
             None \<Rightarrow> Waiting p
           | Some t \<Rightarrow> main_shutdown (drain_needed env) (p\<lparr>now := max (now p) t\<rparr>))
      | Exited code p \<Rightarrow> Exited code p
      | Crashed e p \<Rightarrow> Crashed e p)"

definition process_start :: process where
  "process_start =
     \<lparr>timeline = [], listener_log = [], now = 0, global_tracer = None,
      job_cancelled = False, accepting = False\<rparr>"


definition terminated :: "run_result \<Rightarrow> bool" where
  "terminated r = (case r of Waiting p \<Rightarrow> False | Exited code p \<Rightarrow> True | Crashed e p \<Rightarrow> True)"

definition events :: "run_result \<Rightarrow> (nat \<times> proc_event) list" where
  "events r =
     (case r of Waiting p \<Rightarrow> timeline p | Exited code p \<Rightarrow> timeline p | Crashed e p \<Rightarrow> timeline p)"

definition listener_lines :: "run_result \<Rightarrow> (nat \<times> string) list" where
  "listener_lines r =
     (case r of
        Waiting p \<Rightarrow> listener_log p
      | Exited code p \<Rightarrow> listener_log p
      | Crashed e p \<Rightarrow> listener_log p)"

text \<open>Concrete requests and environments on which the programs are run below.\<close>

definition even_request :: request_env where
  "even_request = \<lparr>draw = 2, downstream = inventory_up\<rparr>"

definition odd_request :: request_env where
  "odd_request = \<lparr>draw = 977, downstream = inventory_up\<rparr>"

definition failing_request :: request_env where
  "failing_request = \<lparr>draw = 2, downstream = inventory_down\<rparr>"

definition healthy :: main_env where
  "healthy =
     \<lparr>agent_listening = True,
      new_tracer =
        \<lparr>nt_tracer = Some JaegerTracer, nt_closer = Some TracerCloser, nt_err = None\<rparr>,
      dial = \<lparr>dial_conn = Some LogstashConn, dial_err = None\<rparr>,
      listen_err = None, signal_at = Some 60000, drain_needed = 7000\<rparr>"




section \<open>Basic facts about the primitives\<close>

lemma smod_2_even: "(n::int) smod 2 = 0 \<longleftrightarrow> even n"
  by (auto simp: signed_modulo_int_def sgn_if abs_if; presburger)

lemma Intn_pos: "0 < n \<Longrightarrow> Intn n v = Inr (int v mod n)"
  by (simp add: Intn_def)

lemma Intn_1000: "Intn 1000 v = Inr (int v mod 1000)"
  by (simp add: Intn_def)

lemma generated_order_id_eq: "generated_order_id v = int v mod 1000"
  by (simp add: generated_order_id_def Intn_1000)

lemma counter_value_Inc:
  "counter_value (Inc lvs (WithLabelValues lvs vec)) lvs' =
     counter_value vec lvs' + (if lvs' = lvs then 1 else 0)"
  by (simp add: counter_value_def Inc_def WithLabelValues_def split: option.splits)

lemma counter_value_WithLabelValues:
  "counter_value (WithLabelValues lvs vec) lvs' = counter_value vec lvs'"
  by (simp add: counter_value_def WithLabelValues_def split: option.splits)

text \<open>
  Each effect on the process state, field by field. The handlers are chains of these
  effects, and reading a field through a chain needs no unfolding of the state.
\<close>

lemma emit_fields:
  "counter (emit e s) = counter s" "summary (emit e s) = summary s"
  "histogram (emit e s) = histogram s" "sink (emit e s) = sink s"
  "trace (emit e s) = trace s @ [e]" "clock (emit e s) = clock s"
  by (simp_all add: emit_def)

lemma time_Sleep_fields:
  "counter (time_Sleep d s) = counter s" "summary (time_Sleep d s) = summary s"
  "histogram (time_Sleep d s) = histogram s" "sink (time_Sleep d s) = sink s"
  "trace (time_Sleep d s) = trace s" "clock (time_Sleep d s) = clock s + d"
  by (simp_all add: time_Sleep_def)

lemma log_write_fields:
  "counter (log_write l m kvs s) = counter s" "summary (log_write l m kvs s) = summary s"
  "histogram (log_write l m kvs s) = histogram s"
  "sink (log_write l m kvs s) = sink s @ [\<lparr>level = l, msg = m, attrs = kvs\<rparr>]"
  "trace (log_write l m kvs s) = trace s" "clock (log_write l m kvs s) = clock s"
  by (simp_all add: log_write_def)

lemma counter_Inc_fields:
  "counter (counter_Inc lvs s) = Inc lvs (WithLabelValues lvs (counter s))"
  "summary (counter_Inc lvs s) = summary s"
  "histogram (counter_Inc lvs s) = histogram s" "sink (counter_Inc lvs s) = sink s"
  "trace (counter_Inc lvs s) = trace s" "clock (counter_Inc lvs s) = clock s"
  by (simp_all add: counter_Inc_def)

lemma counter_WithLabelValues_fields:
  "counter (counter_WithLabelValues lvs s) = WithLabelValues lvs (counter s)"
  "summary (counter_WithLabelValues lvs s) = summary s"
  "histogram (counter_WithLabelValues lvs s) = histogram s"
  "sink (counter_WithLabelValues lvs s) = sink s"
  "trace (counter_WithLabelValues lvs s) = trace s"
  "clock (counter_WithLabelValues lvs s) = clock s"
  by (simp_all add: counter_WithLabelValues_def)

lemma summary_Observe_fields:
  "counter (summary_Observe d s) = counter s" "summary (summary_Observe d s) = summary s @ [d]"
  "histogram (summary_Observe d s) = histogram s" "sink (summary_Observe d s) = sink s"
  "trace (summary_Observe d s) = trace s" "clock (summary_Observe d s) = clock s"
  by (simp_all add: summary_Observe_def)

lemma histogram_Observe_fields:
  "counter (histogram_Observe d s) = counter s" "summary (histogram_Observe d s) = summary s"
  "histogram (histogram_Observe d s) = histogram s @ [d]" "sink (histogram_Observe d s) = sink s"
  "trace (histogram_Observe d s) = trace s" "clock (histogram_Observe d s) = clock s"
  by (simp_all add: histogram_Observe_def)

lemma span_Finish_fields:
  "counter (span_Finish n s) = counter s" "summary (span_Finish n s) = summary s"
  "histogram (span_Finish n s) = histogram s"
  "sink (span_Finish n s) =
     sink s @ [\<lparr>level = Info, msg = ''Reporting span '' @ n, attrs = []\<rparr>]"
  "trace (span_Finish n s) = trace s @ [SpanFinished n]" "clock (span_Finish n s) = clock s"
  by (simp_all add: span_Finish_def log_Println_def log_write_def emit_def)

lemmas effect_fields =
  emit_fields time_Sleep_fields log_write_fields counter_Inc_fields
  counter_WithLabelValues_fields summary_Observe_fields histogram_Observe_fields
  span_Finish_fields

lemmas logger_defs =
  slog_Error_def log_Println_def logger_Info_def logger_With_Error_def

lemmas writer_defs =
  new_writer_def Header_Set_def WriteHeader_def Write_def

section \<open>What the handlers answer\<close>

lemma orders_handler_exposing_metric_result:
  "finish_request (orders_handler_exposing_metric v r new_writer s) =
     Response (if even (generated_order_id v) then 200 else 500)
       [''Content-Type'' \<mapsto> ''application/json'']
       (Encode (ResponseData_value
          \<lparr>Data = \<lparr>OrderID = generated_order_id v\<rparr>,
           Error = (if even (generated_order_id v) then \<lparr>Message = [], Description = []\<rparr>
                    else \<lparr>Message = ''failure, this is simulated by test devs'',
                          Description = ''error''\<rparr>)\<rparr>))"
  by (cases "even (int v mod 1000)")
     (simp_all add: orders_handler_exposing_metric_def Intn_1000 generated_order_id_eq
       smod_2_even Let_def writer_defs)

lemma orders_handler_result:
  assumes "res (downstream env) = Some c"
  shows "finish_request (orders_handler env r new_writer s) =
     Response (if even (generated_order_id (draw env)) then 200 else 500)
       [''Content-Type'' \<mapsto> ''application/json'']
       (Encode (ResponseData_value
          \<lparr>Data = \<lparr>OrderID = generated_order_id (draw env)\<rparr>,
           Error = (if even (generated_order_id (draw env)) then \<lparr>Message = [], Description = []\<rparr>
                    else \<lparr>Message = ''failure, this is simulated by devs'',
                          Description = []\<rparr>)\<rparr>))"
  using assms
  by (cases "even (int (draw env) mod 1000)")
     (simp_all add: orders_handler_def callInventoryService_def Intn_1000 generated_order_id_eq
       smod_2_even Let_def writer_defs)

lemma orders_handler_nil_response:
  assumes "res (downstream env) = None"
  shows "finish_request (orders_handler env r w s) = ConnectionAborted"
  using assms by (simp add: orders_handler_def callInventoryService_def Let_def)

lemma orders_handler_counter:
  assumes "res (downstream env) = Some c"
  shows "counter (final_state (orders_handler env r w s)) =
     (let lvs = [''POST'', ''/orders'',
                 if even (generated_order_id (draw env)) then ''200'' else ''500'']
      in Inc lvs (WithLabelValues lvs (counter s)))"
  using assms
  by (cases "even (int (draw env) mod 1000)")
     (simp_all add: orders_handler_def callInventoryService_def insertToDB_def final_state_def
       Intn_1000 generated_order_id_eq smod_2_even Let_def effect_fields logger_defs)

lemma orders_handler_summary:
  assumes "res (downstream env) = Some c"
  shows "summary (final_state (orders_handler env r w s)) =
           summary s @ [if even (generated_order_id (draw env)) then 100 else 400]"
  using assms
  by (cases "even (int (draw env) mod 1000)")
     (simp_all add: orders_handler_def callInventoryService_def insertToDB_def final_state_def
       Intn_1000 generated_order_id_eq smod_2_even Let_def effect_fields logger_defs)

lemma orders_handler_histogram:
  assumes "res (downstream env) = Some c"
  shows "histogram (final_state (orders_handler env r w s)) =
           histogram s @ [if even (generated_order_id (draw env)) then 100 else 400]"
  using assms
  by (cases "even (int (draw env) mod 1000)")
     (simp_all add: orders_handler_def callInventoryService_def insertToDB_def final_state_def
       Intn_1000 generated_order_id_eq smod_2_even Let_def effect_fields logger_defs)

lemma orders_handler_clock:
  assumes "res (downstream env) = Some c"
  shows "clock (final_state (orders_handler env r w s)) =
           clock s + 700 + latency (downstream env)
             + (if even (generated_order_id (draw env)) then 100 else 400)"
  using assms
  by (cases "even (int (draw env) mod 1000)")
     (simp_all add: orders_handler_def callInventoryService_def insertToDB_def final_state_def
       Intn_1000 generated_order_id_eq smod_2_even Let_def effect_fields logger_defs)

lemma orders_handler_exposing_metric_counter:
  "counter_value (counter (final_state (orders_handler_exposing_metric v r w s))) lvs =
     counter_value (counter s) lvs"
  by (cases "even (int v mod 1000)")
     (simp_all add: orders_handler_exposing_metric_def final_state_def Intn_1000 smod_2_even
       Let_def effect_fields counter_value_WithLabelValues)

text \<open>
  The full handler, when it returns, adds one to the counter whose code label is the
  status it answered, and to no other.
\<close>

lemma orders_handler_counts_once:
  assumes "res (downstream env) = Some c"
  shows "counter_value (counter (final_state (orders_handler env r w s))) lvs =
     counter_value (counter s) lvs
       + (if lvs = [''POST'', ''/orders'',
                    if even (generated_order_id (draw env)) then ''200'' else ''500'']
          then 1 else 0)"
  by (simp add: orders_handler_counter [OF assms] Let_def counter_value_Inc)

text \<open>
  What the two duration instruments of the full service receive: \<open>startTime\<close> is taken
  after the validation (200 ms), persistence (500 ms) and downstream-call steps, so the
  one value both instruments observe is the length of the response branch.
\<close>

lemma orders_handler_observes_response_branch:
  assumes "res (downstream env) = Some c"
  shows "(let d = (if even (generated_order_id (draw env)) then 100 else 400);
              s' = final_state (orders_handler env r w s)
          in summary s' = summary s @ [d] \<and> histogram s' = histogram s @ [d]
             \<and> clock s' = (clock s + 200 + 500 + latency (downstream env)) + d)"
  by (simp add: Let_def orders_handler_summary [OF assms] orders_handler_histogram [OF assms]
      orders_handler_clock [OF assms])

section \<open>The claims\<close>

text \<open>
  Claim C1. Every response of the \<open>/orders\<close> endpoint has status 200 exactly when the
  generated order identifier is even and status 500 exactly when it is odd. This holds
  for the handler of the earlier variants on every request, and for the handler of the
  full service on every request whose downstream call handed back a response (the
  identifier is generated after that call).
\<close>

theorem orders_status_iff_parity:
  assumes "res (downstream env) = Some c"
  shows "(response_status (orders_handler env r new_writer s) = Some 200
            \<longleftrightarrow> even (generated_order_id (draw env)))
       \<and> (response_status (orders_handler env r new_writer s) = Some 500
            \<longleftrightarrow> odd (generated_order_id (draw env)))
       \<and> (response_status (orders_handler_exposing_metric v r new_writer s) = Some 200
            \<longleftrightarrow> even (generated_order_id v))
       \<and> (response_status (orders_handler_exposing_metric v r new_writer s) = Some 500
            \<longleftrightarrow> odd (generated_order_id v))"
  by (simp add: response_status_def orders_handler_result [OF assms]
      orders_handler_exposing_metric_result)

theorem orders_status_iff_parity_witness:
  "res (downstream even_request) = Some 200
     \<and> response_status (orders_handler even_request post_orders new_writer init_state) = Some 200
     \<and> response_status (orders_handler_exposing_metric 977 post_orders new_writer init_state)
         = Some 500"
  using orders_status_iff_parity [of even_request 200 post_orders init_state 977]
  by (simp add: even_request_def inventory_up_def generated_order_id_eq)

text \<open>
  Claim C10. The identifier generated for a request is \<open>rand.Intn(1000)\<close>, which lies in
  \<open>0 \<le> order_id < 1000\<close>, and the body of the response is the encoding of a
  \<open>ResponseData\<close> whose \<open>order_id\<close> is that identifier.
\<close>

theorem order_id_in_range:
  assumes "res (downstream env) = Some c"
  shows "Intn 1000 v = Inr (generated_order_id v)
       \<and> 0 \<le> generated_order_id v \<and> generated_order_id v < 1000
       \<and> (\<exists>e. response_body (orders_handler_exposing_metric v r new_writer s) =
                Some (Encode (ResponseData_value
                  \<lparr>Data = \<lparr>OrderID = generated_order_id v\<rparr>, Error = e\<rparr>)))
       \<and> (\<exists>e. response_body (orders_handler env r new_writer s) =
                Some (Encode (ResponseData_value
                  \<lparr>Data = \<lparr>OrderID = generated_order_id (draw env)\<rparr>, Error = e\<rparr>)))"
proof -
  have "Intn 1000 v = Inr (generated_order_id v)"
    by (simp add: generated_order_id_eq Intn_1000)
  moreover have "0 \<le> generated_order_id v" and "generated_order_id v < 1000"
    by (simp_all add: generated_order_id_eq)
  moreover have "\<exists>e. response_body (orders_handler_exposing_metric v r new_writer s) =
      Some (Encode (ResponseData_value \<lparr>Data = \<lparr>OrderID = generated_order_id v\<rparr>, Error = e\<rparr>))"
    unfolding response_body_def orders_handler_exposing_metric_result by force
  moreover have "\<exists>e. response_body (orders_handler env r new_writer s) =
      Some (Encode (ResponseData_value
        \<lparr>Data = \<lparr>OrderID = generated_order_id (draw env)\<rparr>, Error = e\<rparr>))"
    unfolding response_body_def orders_handler_result [OF assms] by force
  ultimately show ?thesis by blast
qed

theorem order_id_in_range_witness:
  "res (downstream odd_request) = Some 200
     \<and> Intn 1000 123977 = Inr (generated_order_id 123977)
     \<and> 0 \<le> generated_order_id 123977 \<and> generated_order_id 123977 < 1000"
  using order_id_in_range [of odd_request 200 123977 post_orders init_state]
  by (simp add: odd_request_def inventory_up_def)

text \<open>
  Claim C9. Whatever the request, the handler of \<open>/internal/orders\<close> writes one error
  record (the synthetic payment failure) to the log sink and answers status 200 with the
  body \<open>{"data":{}}\<close>. The only other record it writes is the report of its span.
\<close>

theorem internal_orders_always_ok:
  \<open>response_status (internal_orders_handler r new_writer s) = Some 200
     \<and> response_body (internal_orders_handler r new_writer s) = Some ''{"data":{}}''
     \<and> sink (final_state (internal_orders_handler r new_writer s)) =
         sink s @ [\<lparr>level = Err, msg = ''failing validating payment'',
                    attrs = logger_attrs @ payment_failure_attrs\<rparr>,
                   \<lparr>level = Info, msg = ''Reporting span creating order'', attrs = []\<rparr>]\<close>
  by (simp add: internal_orders_handler_def response_status_def response_body_def
      final_state_def Let_def writer_defs effect_fields logger_defs)

text \<open>
  Claim C2. Every completed \<open>/orders\<close> request adds exactly one to exactly one of the
  counters labelled \<open>POST, /orders, 200\<close> and \<open>POST, /orders, 500\<close>, the one of the
  status answered. The full service does so (\<open>orders_handler_counts_once\<close>). The handler
  of the earlier variants does not: run on an even and on an odd identifier from the
  initial state, it answers 200 and 500 and leaves both counters at zero, because it
  only fetches the child with \<open>WithLabelValues\<close> and never calls \<open>Inc\<close> on it.
\<close>

theorem exposing_metric_counters_not_incremented:
  "response_status (orders_handler_exposing_metric 2 post_orders new_writer init_state) = Some 200
     \<and> counter_value (counter (final_state
           (orders_handler_exposing_metric 2 post_orders new_writer init_state)))
         [''POST'', ''/orders'', ''200''] = 0
     \<and> response_status (orders_handler_exposing_metric 977 post_orders new_writer init_state)
         = Some 500
     \<and> counter_value (counter (final_state
           (orders_handler_exposing_metric 977 post_orders new_writer init_state)))
         [''POST'', ''/orders'', ''500''] = 0"
proof -
  have "counter_value (counter init_state) lvs = 0" for lvs
    by (simp add: counter_value_def init_state_def)
  then show ?thesis
    by (simp add: response_status_def orders_handler_exposing_metric_result
        orders_handler_exposing_metric_counter generated_order_id_eq)
qed

text \<open>
  Claim C3. The body of an \<open>/orders\<close> response carries the generated identifier in
  \<open>data.order_id\<close>, an error message exactly for odd identifiers, and no \<open>error\<close> object
  for even ones. The last part fails in both handlers: the \<open>omitempty\<close> option on the
  struct-typed field \<open>Error\<close> never applies, since no struct value is empty for the
  encoder, so the body for the even identifier 2 still contains \<open>"error":{}\<close>.
\<close>

theorem even_order_body_keeps_error_object:
  \<open>response_body (orders_handler even_request post_orders new_writer init_state) =
       Some (''{"data":{"order_id":2},"error":{}}'' @ [CHR 0x0A])
     \<and> response_body (orders_handler_exposing_metric 2 post_orders new_writer init_state) =
       Some (''{"data":{"order_id":2},"error":{}}'' @ [CHR 0x0A])\<close>
proof -
  have "res (downstream even_request) = Some 200"
    by (simp add: even_request_def inventory_up_def)
  from orders_handler_result [OF this] show ?thesis
    by (simp add: response_body_def orders_handler_exposing_metric_result
        even_request_def generated_order_id_eq Encode_def ResponseData_value_def Data_value_def
        Error_value_def quote_def itoa_def digit_char_def)
qed

text \<open>
  Claim C4. When the outbound call of the downstream step returns an error, the step's
  span is finished and the error is logged, and the handler goes on to answer the
  request. The first two hold; the third does not. With the inventory service down
  (\<open>res\<close> nil, \<open>err\<close> set) \<open>callInventoryService\<close> logs, then panics with a nil pointer
  dereference at \<open>defer res.Body.Close()\<close>; both open spans are finished by their deferred
  calls, but no counter is incremented, nothing is observed, nothing is written to the
  response, and the server closes the connection.
\<close>

theorem downstream_error_aborts_request:
  "orders_handler failing_request post_orders new_writer init_state =
     Panicked NilPointerDereference
       (new_writer,
        \<lparr>counter = Map.empty, summary = [], histogram = [],
         sink = [\<lparr>level = Info, msg = ''Reporting span 1_validating_order_data'',
                   attrs = []\<rparr>,
                 \<lparr>level = Info, msg = ''inserting to db...'',
                   attrs = [(''environment'', ''dev'')]\<rparr>,
                 \<lparr>level = Info, msg = ''Reporting span 2_inserting_order_data_to_db'',
                   attrs = []\<rparr>,
                 \<lparr>level = Err, msg = ''failed to call inventory service'', attrs = []\<rparr>,
                 \<lparr>level = Info,
                   msg = ''Reporting span 3_http_get_inventory_service_check_stock'',
                   attrs = []\<rparr>,
                 \<lparr>level = Info, msg = ''Reporting span creating order'', attrs = []\<rparr>],
         trace = [SpanStarted ''creating order'',
                  SpanStarted ''1_validating_order_data'',
                  SpanFinished ''1_validating_order_data'',
                  SpanStarted ''2_inserting_order_data_to_db'',
                  SpanFinished ''2_inserting_order_data_to_db'',
                  SpanStarted ''3_http_get_inventory_service_check_stock'',
                  TraceInjected ''3_http_get_inventory_service_check_stock'',
                  OutboundRequest ''GET'' ''http://localhost:2000/checkstock'',
                  SpanFinished ''3_http_get_inventory_service_check_stock'',
                  SpanFinished ''creating order''],
         clock = 700\<rparr>)
     \<and> finish_request (orders_handler failing_request post_orders new_writer init_state)
         = ConnectionAborted"
  by (simp add: orders_handler_def callInventoryService_def insertToDB_def failing_request_def
      inventory_down_def init_state_def Let_def span_Finish_def emit_def time_Sleep_def
      log_write_def logger_defs logger_attrs_def)

text \<open>
  Claim C6. For every \<open>/orders\<close> request the summary and the histogram each receive one
  observation, of the same value, and that value is the total handling duration of the
  request, the validation, persistence and downstream-call steps included. The first
  part holds whenever the handler returns (\<open>orders_handler_observes_response_branch\<close>);
  the value is not the one claimed. \<open>startTime\<close> is taken only after the three steps:
  a request answered 200 after a downstream call of 50 ms is handled in 850 ms, and both
  instruments, which are named and commented as the order processing duration and
  bucketed at 0.5, 1 and 2 seconds, observe 100 ms.
\<close>

theorem observed_duration_not_total:
  "summary (final_state (orders_handler even_request post_orders new_writer init_state)) = [100]
     \<and> histogram (final_state (orders_handler even_request post_orders new_writer init_state))
         = [100]
     \<and> clock (final_state (orders_handler even_request post_orders new_writer init_state))
          - clock init_state = 850"
proof -
  have "res (downstream even_request) = Some 200"
    by (simp add: even_request_def inventory_up_def)
  from orders_handler_summary [OF this] orders_handler_histogram [OF this]
    orders_handler_clock [OF this]
  show ?thesis
    by (simp add: even_request_def inventory_up_def generated_order_id_eq init_state_def)
qed

section \<open>The background job\<close>

lemma job_step_fields:
  "job_clock (job_Sleep d s) = job_clock s + d" "updates (job_Sleep d s) = updates s"
  "job_clock (job_elapse d s) = job_clock s + d" "updates (job_elapse d s) = updates s"
  "job_clock (gauge_Add lvs x s) = job_clock s"
  "updates (gauge_Add lvs x s) = updates s @ [job_clock s]"
  "job_clock (job_Print m s) = job_clock s" "updates (job_Print m s) = updates s"
  by (simp_all add: job_Sleep_def job_elapse_def gauge_Add_def job_Print_def)

text \<open>
  Once the context is cancelled at \<open>c\<close> the job returns: at once when it is polled at or
  after \<open>c\<close>, and otherwise after the iterations whose poll comes before \<open>c\<close>. Each of
  these iterations updates the gauge within its work time after the poll and then sleeps
  a whole tick before the next poll. By induction on the time left until \<open>c\<close>.
\<close>

lemma simulation_job_cancelled:
  assumes "0 < tick cfg" and "0 < sample_bound cfg" and "\<forall>i. work i \<le> tick cfg"
  shows "\<exists>s' us. simulation_job cfg (Some c) draws work i s = Some (Returned s')
           \<and> updates s' = updates s @ us
           \<and> (\<forall>t\<in>set us. t < c + tick cfg)
           \<and> (\<forall>t\<in>set us. t + tick cfg \<le> job_clock s')
           \<and> job_clock s \<le> job_clock s' \<and> c \<le> job_clock s'"
proof (induction "c - job_clock s" arbitrary: s i rule: less_induct)
  case less
  show ?case
  proof (cases "c \<le> job_clock s")
    case True
    then show ?thesis
      by (subst simulation_job.simps) (simp add: ctx_Done_def job_step_fields)
  next
    case False
    define s1 where
      "s1 = job_elapse (work i)
              (if log_each_tick cfg then job_Print ''sending metrics'' s else s)"
    define s2 where
      "s2 = job_Sleep (tick cfg)
              (gauge_Add [''ID'', ''JAK''] (int (draws i) mod sample_bound cfg) s1)"
    have clock1: "job_clock s1 = job_clock s + work i"
      by (simp add: s1_def job_step_fields)
    have clock2: "job_clock s2 = job_clock s1 + tick cfg"
      and upd2: "updates s2 = updates s @ [job_clock s1]"
      by (simp_all add: s2_def s1_def job_step_fields)
    have unfold: "simulation_job cfg (Some c) draws work i s =
        simulation_job cfg (Some c) draws work (Suc i) s2"
      using False assms(2)
      by (subst simulation_job.simps) (simp add: ctx_Done_def Intn_pos s2_def s1_def Let_def)
    have "c - job_clock s2 < c - job_clock s"
      using False assms(1) clock1 clock2 by simp
    from less [OF this, of "Suc i"] obtain s' us where
      run: "simulation_job cfg (Some c) draws work (Suc i) s2 = Some (Returned s')"
      and upd: "updates s' = updates s2 @ us"
      and soon: "\<forall>t\<in>set us. t < c + tick cfg"
      and slept: "\<forall>t\<in>set us. t + tick cfg \<le> job_clock s'"
      and mono: "job_clock s2 \<le> job_clock s'" and lo: "c \<le> job_clock s'"
      by blast
    have "work i \<le> tick cfg"
      using assms(3) by simp
    then have first_soon: "job_clock s1 < c + tick cfg"
      using False clock1 by simp
    have first_slept: "job_clock s1 + tick cfg \<le> job_clock s'"
      using mono clock2 by simp
    have "updates s' = updates s @ (job_clock s1 # us)"
      using upd upd2 by simp
    moreover have "\<forall>t\<in>set (job_clock s1 # us). t < c + tick cfg"
      using soon first_soon by simp
    moreover have "\<forall>t\<in>set (job_clock s1 # us). t + tick cfg \<le> job_clock s'"
      using slept first_slept by simp
    moreover have "job_clock s \<le> job_clock s'"
      using mono clock1 clock2 by simp
    ultimately show ?thesis
      using unfold run lo by metis
  qed
qed

text \<open>
  Without a cancellation the loop has no way out: a job whose sample bound is positive
  (so that \<open>rand.Intn\<close> cannot panic) never returns.
\<close>

lemma simulation_job_returns_only_cancelled:
  assumes "simulation_job cfg cancel_at draws work i s = Some r"
  shows "cancel_at = None \<longrightarrow> sample_bound cfg \<le> 0"
proof (rule simulation_job.raw_induct
        [where P = "\<lambda>cfg ca draws work i s r. ca = None \<longrightarrow> sample_bound cfg \<le> 0",
         OF _ assms], goal_cases)
  case (1 sim cfg ca draws work i s r)
  show ?case
  proof (intro impI, rule ccontr)
    assume never: "ca = None" and positive: "\<not> sample_bound cfg \<le> 0"
    then obtain s' where "sim cfg ca draws work (Suc i) s' = Some r"
      using 1(2) by (auto simp: ctx_Done_def Let_def Intn_def split: if_splits)
    from 1(1) [OF this] never positive show False by simp
  qed
qed

lemma simulation_job_runs_forever:
  assumes "0 < sample_bound cfg"
  shows "simulation_job cfg None draws work i s = None"
proof (cases "simulation_job cfg None draws work i s")
  case None
  then show ?thesis .
next
  case (Some r)
  from simulation_job_returns_only_cancelled [OF this] assms show ?thesis by simp
qed

text \<open>
  Claim C5, as amended. After the cancellation signal fires at \<open>c\<close>, the background job
  performs no further gauge update once one tick interval has elapsed (the work of an
  iteration between its poll and its update taking no longer than a tick), and it
  returns. The job's sleep is not interruptible by the signal: the context is polled
  only at the start of an iteration, before the update and the sleep, so every update
  the job has made is followed by a sleep of a whole tick before the job returns, also
  when the signal fires during that sleep.
\<close>

theorem job_stops_at_next_poll:
  assumes "0 < tick cfg" and "0 < sample_bound cfg" and "\<forall>i. work i \<le> tick cfg"
  shows "\<exists>s' us. simulation_job cfg (Some c) draws work i s = Some (Returned s')
           \<and> updates s' = updates s @ us
           \<and> (\<forall>t\<in>set us. t < c + tick cfg)
           \<and> (\<forall>t\<in>set us. t + tick cfg \<le> job_clock s')
           \<and> c \<le> job_clock s'"
proof -
  from simulation_job_cancelled [OF assms, of c draws i s] obtain s' us where
    "simulation_job cfg (Some c) draws work i s = Some (Returned s')"
    "updates s' = updates s @ us" "\<forall>t\<in>set us. t < c + tick cfg"
    "\<forall>t\<in>set us. t + tick cfg \<le> job_clock s'" "c \<le> job_clock s'"
    by blast
  then show ?thesis by blast
qed

theorem job_stops_at_next_poll_witness:
  "0 < tick full_service_job \<and> 0 < sample_bound full_service_job
     \<and> (\<forall>i. one_ms i \<le> tick full_service_job)
     \<and> (\<exists>s' us. simulation_job full_service_job (Some 1500) id one_ms 0 job_start
                    = Some (Returned s')
           \<and> updates s' = us
           \<and> (\<forall>t\<in>set us. t < 2500)
           \<and> (\<forall>t\<in>set us. t + 1000 \<le> job_clock s')
           \<and> 1500 \<le> job_clock s')"
  using job_stops_at_next_poll [of full_service_job one_ms 1500 id 0 job_start]
  by (auto simp: full_service_job_def job_start_def one_ms_def)

text \<open>
  The claim as stated fails: cancelled at 500 ms, in the middle of its first sleep, the
  job of the full service returns only at 1001 ms, when that sleep has ended; the job of
  the gauge variant, cancelled at 100 ms, returns at 301 ms.
\<close>

theorem job_sleep_not_interrupted:
  "stop_time (simulation_job full_service_job (Some 500) id one_ms 0 job_start) = Some 1001
     \<and> stop_time (simulation_job gauge_variant_job (Some 100) id one_ms 0 job_start)
         = Some 301"
proof -
  have "stop_time (simulation_job full_service_job (Some 500) id one_ms 0 job_start)
      = Some 1001"
    apply (subst simulation_job.simps)
    apply (simp add: ctx_Done_def full_service_job_def job_start_def Intn_def job_Sleep_def
        job_elapse_def one_ms_def gauge_Add_def job_Print_def)
    apply (subst simulation_job.simps)
    apply (simp add: ctx_Done_def stop_time_def job_Print_def)
    done
  moreover have
    "stop_time (simulation_job gauge_variant_job (Some 100) id one_ms 0 job_start) = Some 301"
    apply (subst simulation_job.simps)
    apply (simp add: ctx_Done_def gauge_variant_job_def job_start_def Intn_def job_Sleep_def
        job_elapse_def one_ms_def gauge_Add_def job_Print_def)
    apply (subst simulation_job.simps)
    apply (simp add: ctx_Done_def stop_time_def job_Print_def)
    done
  ultimately show ?thesis by simp
qed

section \<open>Startup and shutdown\<close>




text \<open>Without a signal, a process that has started waits and never shuts down.\<close>

lemma main_waits_for_signal:
  assumes "main_startup env p = Waiting q" and "signal_at env = None"
  shows "main env p = Waiting q"
  using assms by (simp add: main_def)

text \<open>
  Claim C7. When the termination signal arrives at a process that has started, \<open>main\<close>
  cancels the background job, then calls \<open>server.Shutdown\<close> with a deadline of 5
  seconds, then sleeps 2 seconds, then returns and the process exits with status 0.
  When the drain needs more than the deadline, \<open>Shutdown\<close> returns at the deadline, the
  failure is printed, and the rest of the sequence is the same. A listener that was
  running prints that the server is closed when \<open>Shutdown\<close> starts.
\<close>

theorem shutdown_on_signal:
  assumes "main_startup env p = Waiting q" and "signal_at env = Some t"
  shows "main env p =
     (let T = max (now q) t; D = min (drain_needed env) 5000
      in Exited 0
           (q\<lparr>timeline := timeline q @
                [(T, Printed ''termination signal received, shutting down...''),
                 (T, CancelCalled),
                 (T, ShutdownStarted 5000),
                 (T + D,
                    ShutdownReturned
                      (if drain_needed env \<le> 5000 then None
                       else Some ''context deadline exceeded'')),
                 (T + D,
                    Printed
                      (if drain_needed env \<le> 5000 then ''http server stopped gracefully''
                       else ''failled to shutdown http server due to error: context deadline exceeded'')),
                 (T + D, Slept 2000),
                 (T + D + 2000, Closed ''shutdownCtx''),
                 (T + D + 2000, CancelCalled),
                 (T + D + 2000, Closed ''conn''),
                 (T + D + 2000, Closed ''closer'')],
              listener_log := listener_log q @
                (if accepting q
                 then [(T, ''HTTP server ListenAndServe: http: Server closed'')] else []),
              now := T + D + 2000,
              job_cancelled := True,
              accepting := False\<rparr>))"
proof (cases "accepting q")
  case True
  with assms show ?thesis
    by (simp add: main_def main_shutdown_def server_Shutdown_def cancelSimulationJob_def
        proc_Sleep_def listener_Printf_def at_now_def Let_def min_def)
next
  case False
  then have "q\<lparr>accepting := False\<rparr> = q" by simp
  with False assms show ?thesis
    by (simp add: main_def main_shutdown_def server_Shutdown_def cancelSimulationJob_def
        proc_Sleep_def listener_Printf_def at_now_def Let_def min_def)
qed

theorem shutdown_on_signal_witness:
  "signal_at healthy = Some 60000
     \<and> terminated (main healthy process_start)
     \<and> listener_lines (main healthy process_start) =
         [(60000, ''HTTP server ListenAndServe: http: Server closed'')]
     \<and> [x \<leftarrow> events (main healthy process_start). 60000 \<le> fst x] =
         [(60000, Printed ''termination signal received, shutting down...''),
          (60000, CancelCalled),
          (60000, ShutdownStarted 5000),
          (65000, ShutdownReturned (Some ''context deadline exceeded'')),
          (65000, Printed ''failled to shutdown http server due to error: context deadline exceeded''),
          (65000, Slept 2000),
          (67000, Closed ''shutdownCtx''),
          (67000, CancelCalled),
          (67000, Closed ''conn''),
          (67000, Closed ''closer'')]"
proof -
  have "\<exists>q. main_startup healthy process_start = Waiting q \<and> now q = 0 \<and> accepting q
      \<and> listener_log q = []
      \<and> timeline q =
          [(0, Printed ''connected to logstash successfully''),
           (0, Printed ''starting http server ...''),
           (0, JobStarted),
           (0, ListenerStarted)]"
    by (simp add: main_startup_def InitTracer_def healthy_def process_start_def Let_def
        at_now_def)
  then obtain q where startup: "main_startup healthy process_start = Waiting q"
    and q: "now q = 0" "accepting q" "listener_log q = []"
      "timeline q =
          [(0, Printed ''connected to logstash successfully''),
           (0, Printed ''starting http server ...''),
           (0, JobStarted),
           (0, ListenerStarted)]"
    by blast
  have signal: "signal_at healthy = Some 60000" and need: "drain_needed healthy = 7000"
    by (simp_all add: healthy_def)
  from shutdown_on_signal [OF startup signal] q signal need show ?thesis
    by (simp add: Let_def terminated_def events_def listener_lines_def)
qed




end
